theory Spec2Isabelle
  imports Main
begin

section \<open>The profiler of composer/profiler/profiler.py\<close>

text \<open>
  A shallow embedding of the classes \<open>Profiler\<close> and \<open>Marker\<close>. Python integers are
  \<^typ>\<open>int\<close>, exceptions are values of the type \<open>error\<close>, and the objects that the
  program shares by reference (the markers) live in an explicit store.
\<close>

subsection \<open>Data\<close>

datatype ProfilerAction = SKIP | WARMUP | ACTIVE

text \<open>
  The exceptions the code can raise: the division of \<open>get_action\<close>, the
  \<open>RuntimeError\<close> of the marker protocol, a failed dictionary lookup, and
  whatever a profiled function raises on its own.
\<close>

datatype error = ZeroDivisionError | RuntimeError | KeyError | UserException string

text \<open>Values that a profiled Python function returns.\<close>

datatype pyvalue = NoneV | IntV int | StrV string

text \<open>
  The logical timestamp of the host's timer (class \<open>Timestamp\<close>, not part of this
  module): its epoch, batch and sample counters.
\<close>

datatype Timestamp = Timestamp int int int

text \<open>
  What a handler receives: the keyword arguments of \<open>process_duration_event\<close>,
  \<open>process_instant_event\<close> and \<open>process_counter_event\<close>, in the order name,
  categories, timestamp, is_start, wall_clock_time_ns, global_rank, pid, values.
\<close>

datatype event =
    DurationEvent string "string list" Timestamp bool int int int
  | InstantEvent string "string list" Timestamp int int int
  | CounterEvent string "string list" int int int "(string \<times> int) list"

text \<open>
  An event handler. The handler classes are outside this module; a handler is a
  sink that keeps what it was given, in the order of arrival.
\<close>

datatype HandlerClass = JSONTraceHandler | UserHandler string

record Handler =
  handler_class :: HandlerClass
  processed :: "event list"

text \<open>\<open>state.timer\<close> of the host: \<open>batch_in_epoch.value\<close> and \<open>get_timestamp()\<close>.\<close>

record Timer =
  batch_in_epoch :: int
  get_timestamp :: Timestamp

text \<open>
  The attributes of a \<open>Profiler\<close>. \<open>names_to_markers\<close> maps a name to the address of
  the marker object in the store.
\<close>

record Profiler =
  names_to_markers :: "string \<rightharpoonup> nat"
  event_handlers :: "Handler list"
  state :: Timer
  skip_first :: int
  wait :: int
  warmup :: int
  active :: int
  repeat :: int
  merged_trace_file :: string
  action :: ProfilerAction

text \<open>The attributes of a \<open>Marker\<close> (its profiler is the one of the world below).\<close>

record Marker =
  name :: string
  actions :: "ProfilerAction list"
  categories :: "string list"
  record_instant_on_start :: bool
  record_instant_on_finish :: bool
  started :: bool
  action_at_start :: "ProfilerAction option"

text \<open>
  The world: the profiler, the store of marker objects (\<open>heap\<close>, with \<open>next_addr\<close>
  the first address not yet given to an object), and what the code reads from
  its environment: \<open>time.time_ns()\<close>, \<open>dist.get_global_rank()\<close>, \<open>os.getpid()\<close>.
\<close>

record World =
  profiler :: Profiler
  heap :: "nat \<Rightarrow> Marker"
  next_addr :: nat
  time_time_ns :: int
  dist_global_rank :: int
  os_pid :: int

subsection \<open>Profiler.__init__\<close>

text \<open>\<open>os.path.join\<close> of two POSIX paths.\<close>

definition path_join :: "string \<Rightarrow> string \<Rightarrow> string" where
  "path_join a b =
     (if b \<noteq> [] \<and> hd b = CHR ''/'' then b
      else if a = [] \<or> last a = CHR ''/'' then a @ b
      else a @ ''/'' @ b)"

text \<open>
  The constructor; \<open>run_directory\<close> is what \<open>run_directory.get_run_directory()\<close>
  returns. An empty sequence of handlers is false in Python, so it is replaced
  by a fresh \<open>JSONTraceHandler\<close>.
\<close>

definition Profiler_init ::
  "string \<Rightarrow> Timer \<Rightarrow> Handler list \<Rightarrow> int \<Rightarrow> int \<Rightarrow> int \<Rightarrow> int \<Rightarrow> int \<Rightarrow> string \<Rightarrow> Profiler" where
  "Profiler_init run_directory st handlers skip_first' wait' warmup' active' repeat' trace_file =
     \<lparr> names_to_markers = Map.empty,
       event_handlers =
         (if handlers \<noteq> [] then handlers
          else [\<lparr> handler_class = JSONTraceHandler, processed = [] \<rparr>]),
       state = st,
       skip_first = skip_first',
       wait = wait',
       warmup = warmup',
       active = active',
       repeat = repeat',
       merged_trace_file = path_join run_directory trace_file,
       action = SKIP \<rparr>"

subsection \<open>Profiler.get_action\<close>

text \<open>
  The method reads four attributes and assigns none. Python's \<open>%\<close> raises
  \<open>ZeroDivisionError\<close> on a zero divisor and otherwise agrees with \<open>mod\<close> on
  \<^typ>\<open>int\<close> (the result has the sign of the divisor).
\<close>

definition get_action :: "Profiler \<Rightarrow> int \<Rightarrow> error + ProfilerAction" where
  "get_action self batch_idx =
     (let cycle_len = wait self + warmup self + active self in
      if repeat self \<noteq> 0 \<and> batch_idx \<ge> cycle_len * repeat self then Inr SKIP
      else if cycle_len = 0 then Inl ZeroDivisionError
      else
        let position_in_cycle = batch_idx mod cycle_len in
        if position_in_cycle < wait self then Inr SKIP
        else if position_in_cycle < wait self + warmup self then Inr WARMUP
        else Inr ACTIVE)"

text \<open>The timer of an epoch that is at batch \<open>b\<close>.\<close>

definition timer_at :: "int \<Rightarrow> Timer" where
  "timer_at b = \<lparr> batch_in_epoch = b, get_timestamp = Timestamp 0 b 0 \<rparr>"

text \<open>A profiler with the given cycle, no handler argument and \<open>skip_first = 0\<close>.\<close>

definition cycle_profiler :: "int \<Rightarrow> int \<Rightarrow> int \<Rightarrow> int \<Rightarrow> Profiler" where
  "cycle_profiler w u a r =
     Profiler_init ''/run'' (timer_at 0) [] 0 w u a r ''merged_profiler_trace.json''"

subsection \<open>Event fan-out\<close>

text \<open>
  The three \<open>process_*_event\<close> methods of a handler: the event is appended to what
  the handler holds. Handlers are taken not to raise.
\<close>

definition process_event :: "event \<Rightarrow> Handler \<Rightarrow> Handler" where
  "process_event e handler = handler\<lparr>processed := processed handler @ [e]\<rparr>"

text \<open>
  The \<open>record_*_event\<close> methods: a loop over \<open>self._event_handlers\<close>, in order. The
  marker argument is the object as it is at the time of the call.
\<close>

definition record_duration_event ::
  "Marker \<Rightarrow> bool \<Rightarrow> int \<Rightarrow> int \<Rightarrow> int \<Rightarrow> Timestamp \<Rightarrow> Profiler \<Rightarrow> Profiler" where
  "record_duration_event marker is_start wall_clock_time_ns rank p ts self =
     self\<lparr>event_handlers :=
       map (process_event
              (DurationEvent (name marker) (categories marker) ts is_start
                 wall_clock_time_ns rank p))
         (event_handlers self)\<rparr>"

definition record_instant_event ::
  "Marker \<Rightarrow> int \<Rightarrow> int \<Rightarrow> int \<Rightarrow> Timestamp \<Rightarrow> Profiler \<Rightarrow> Profiler" where
  "record_instant_event marker wall_clock_time_ns rank p ts self =
     self\<lparr>event_handlers :=
       map (process_event
              (InstantEvent (name marker) (categories marker) ts wall_clock_time_ns rank p))
         (event_handlers self)\<rparr>"

definition record_counter_event ::
  "Marker \<Rightarrow> int \<Rightarrow> int \<Rightarrow> int \<Rightarrow> (string \<times> int) list \<Rightarrow> Profiler \<Rightarrow> Profiler" where
  "record_counter_event marker wall_clock_time_ns rank p vals self =
     self\<lparr>event_handlers :=
       map (process_event
              (CounterEvent (name marker) (categories marker) wall_clock_time_ns rank p vals))
         (event_handlers self)\<rparr>"

subsection \<open>The store of markers\<close>

text \<open>An assignment to attributes of the marker object at address \<open>self\<close>.\<close>

definition set_marker :: "nat \<Rightarrow> (Marker \<Rightarrow> Marker) \<Rightarrow> World \<Rightarrow> World" where
  "set_marker self f w = w\<lparr>heap := (heap w)(self := f (heap w self))\<rparr>"

text \<open>What an address holds before an object is created there.\<close>

definition unallocated :: Marker where
  "unallocated =
     \<lparr> name = [], actions = [], categories = [], record_instant_on_start = False,
       record_instant_on_finish = False, started = False, action_at_start = None \<rparr>"

text \<open>The world after \<open>Profiler.__init__\<close>: no marker object exists yet.\<close>

definition World_init :: "Profiler \<Rightarrow> int \<Rightarrow> int \<Rightarrow> int \<Rightarrow> World" where
  "World_init p t rank pd =
     \<lparr> profiler = p, heap = (\<lambda>_. unallocated), next_addr = 0,
       time_time_ns = t, dist_global_rank = rank, os_pid = pd \<rparr>"

subsection \<open>Marker.__init__\<close>

text \<open>
  \<open>Marker(profiler, name, ...)\<close>: a new object (at the next free address) is
  initialised. When the name is registered for another object than the new one,
  \<open>RuntimeError\<close> is raised; the new object is then unreachable and is left out of
  the store.
\<close>

definition Marker_init ::
  "string \<Rightarrow> ProfilerAction list \<Rightarrow> bool \<Rightarrow> bool \<Rightarrow> string list \<Rightarrow> World
     \<Rightarrow> (error + nat) \<times> World" where
  "Marker_init nm acts on_start on_finish cats w =
     (let self = next_addr w in
      if (case names_to_markers (profiler w) nm of
            None \<Rightarrow> False
          | Some other \<Rightarrow> other \<noteq> self)
      then (Inl RuntimeError, w)
      else
        (Inr self,
         w\<lparr>heap := (heap w)(self :=
              \<lparr> name = nm, actions = acts, categories = cats,
                record_instant_on_start = on_start, record_instant_on_finish = on_finish,
                started = False, action_at_start = None \<rparr>),
           next_addr := Suc self\<rparr>))"

subsection \<open>Profiler.marker\<close>

text \<open>The subscription \<open>self._names_to_markers[name]\<close>.\<close>

definition lookup_marker :: "string \<Rightarrow> World \<Rightarrow> error + nat" where
  "lookup_marker nm w =
     (case names_to_markers (profiler w) nm of None \<Rightarrow> Inl KeyError | Some a \<Rightarrow> Inr a)"

definition marker ::
  "string \<Rightarrow> ProfilerAction list \<Rightarrow> bool \<Rightarrow> bool \<Rightarrow> string list \<Rightarrow> World
     \<Rightarrow> (error + nat) \<times> World" where
  "marker nm acts on_start on_finish cats w =
     (case (if names_to_markers (profiler w) nm = None
            then (case Marker_init nm acts on_start on_finish cats w of
                    (Inl e, w') \<Rightarrow> (Inl e, w')
                  | (Inr a, w') \<Rightarrow>
                      (Inr (),
                       w'\<lparr>profiler := (profiler w')
                            \<lparr>names_to_markers := (names_to_markers (profiler w'))(nm \<mapsto> a)\<rparr>\<rparr>))
            else (Inr (), w)) of
        (Inl e, w1) \<Rightarrow> (Inl e, w1)
      | (Inr _, w1) \<Rightarrow>
          (case lookup_marker nm w1 of
             Inl e \<Rightarrow> (Inl e, w1)
           | Inr a \<Rightarrow> (Inr a, set_marker a (\<lambda>m. m\<lparr>categories := cats\<rparr>) w1)))"

subsection \<open>Marker.start, Marker.finish, Marker.instant, Marker.counter\<close>

text \<open>The calls of the profiler's \<open>record_*_event\<close> methods from a marker.\<close>

definition call_record_duration_event :: "nat \<Rightarrow> bool \<Rightarrow> int \<Rightarrow> World \<Rightarrow> World" where
  "call_record_duration_event self is_start wall_clock_time w =
     w\<lparr>profiler :=
         record_duration_event (heap w self) is_start wall_clock_time
           (dist_global_rank w) (os_pid w) (get_timestamp (state (profiler w))) (profiler w)\<rparr>"

definition call_record_instant_event :: "nat \<Rightarrow> int \<Rightarrow> World \<Rightarrow> World" where
  "call_record_instant_event self wall_clock_time w =
     w\<lparr>profiler :=
         record_instant_event (heap w self) wall_clock_time
           (dist_global_rank w) (os_pid w) (get_timestamp (state (profiler w))) (profiler w)\<rparr>"

definition call_record_counter_event :: "nat \<Rightarrow> int \<Rightarrow> (string \<times> int) list \<Rightarrow> World \<Rightarrow> World" where
  "call_record_counter_event self wall_clock_time vals w =
     w\<lparr>profiler :=
         record_counter_event (heap w self) wall_clock_time
           (dist_global_rank w) (os_pid w) vals (profiler w)\<rparr>"

text \<open>
  \<open>self._action_at_start in self.actions\<close>; the attribute is \<open>None\<close> until the first
  start, and \<open>None\<close> is no element of a sequence of actions.
\<close>

definition in_actions :: "ProfilerAction option \<Rightarrow> ProfilerAction list \<Rightarrow> bool" where
  "in_actions a acts = (case a of None \<Rightarrow> False | Some x \<Rightarrow> x \<in> set acts)"

definition start :: "nat \<Rightarrow> World \<Rightarrow> (error + unit) \<times> World" where
  "start self w =
     (if started (heap w self) then (Inl RuntimeError, w)
      else
        let batch_idx = batch_in_epoch (state (profiler w)) in
        case get_action (profiler w) batch_idx of
          Inl e \<Rightarrow> (Inl e, w)
        | Inr a \<Rightarrow>
            let w1 = set_marker self (\<lambda>m. m\<lparr>action_at_start := Some a\<rparr>) w;
                w2 =
                  (if in_actions (action_at_start (heap w1 self)) (actions (heap w1 self))
                   then
                     let wall_clock_time = time_time_ns w1;
                         w' = call_record_duration_event self True wall_clock_time w1
                     in if record_instant_on_start (heap w' self)
                        then call_record_instant_event self wall_clock_time w'
                        else w'
                   else w1)
            in (Inr (), set_marker self (\<lambda>m. m\<lparr>started := True\<rparr>) w2))"

definition finish :: "nat \<Rightarrow> World \<Rightarrow> (error + unit) \<times> World" where
  "finish self w =
     (if \<not> started (heap w self) then (Inl RuntimeError, w)
      else
        let w2 =
              (if in_actions (action_at_start (heap w self)) (actions (heap w self))
               then
                 let wall_clock_time = time_time_ns w;
                     w' = call_record_duration_event self False wall_clock_time w
                 in if record_instant_on_finish (heap w' self)
                    then call_record_instant_event self wall_clock_time w'
                    else w'
               else w)
        in (Inr (), set_marker self (\<lambda>m. m\<lparr>started := False\<rparr>) w2))"

definition instant :: "nat \<Rightarrow> World \<Rightarrow> (error + unit) \<times> World" where
  "instant self w =
     (let batch_idx = batch_in_epoch (state (profiler w)) in
      case get_action (profiler w) batch_idx of
        Inl e \<Rightarrow> (Inl e, w)
      | Inr a \<Rightarrow>
          if a \<in> set (actions (heap w self))
          then (Inr (), call_record_instant_event self (time_time_ns w) w)
          else (Inr (), w))"

definition counter :: "nat \<Rightarrow> (string \<times> int) list \<Rightarrow> World \<Rightarrow> (error + unit) \<times> World" where
  "counter self vals w =
     (let batch_idx = batch_in_epoch (state (profiler w)) in
      case get_action (profiler w) batch_idx of
        Inl e \<Rightarrow> (Inl e, w)
      | Inr a \<Rightarrow>
          if a \<in> set (actions (heap w self))
          then (Inr (), call_record_counter_event self (time_time_ns w) vals w)
          else (Inr (), w))"

subsection \<open>The context manager and the decorator\<close>

definition Marker_enter :: "nat \<Rightarrow> World \<Rightarrow> (error + nat) \<times> World" where
  "Marker_enter self w =
     (case start self w of
        (Inl e, w') \<Rightarrow> (Inl e, w')
      | (Inr _, w') \<Rightarrow> (Inr self, w'))"

text \<open>\<open>__exit__\<close> returns \<open>None\<close>, so an exception of the body is not suppressed.\<close>

definition Marker_exit :: "nat \<Rightarrow> World \<Rightarrow> (error + unit) \<times> World" where
  "Marker_exit self w = finish self w"

text \<open>
  The function \<open>wrapped\<close> that \<open>Marker.__call__\<close> returns for a function \<open>func\<close>
  (with its arguments already given): \<open>with self: func(*args, **kwargs)\<close>, and no
  \<open>return\<close> statement. \<open>__exit__\<close> runs on both ways out of the body; an exception that
  \<open>__exit__\<close> raises replaces the one of the body.
\<close>

definition wrapped ::
  "nat \<Rightarrow> (World \<Rightarrow> (error + pyvalue) \<times> World) \<Rightarrow> World \<Rightarrow> (error + pyvalue) \<times> World" where
  "wrapped self func w =
     (case Marker_enter self w of
        (Inl e, w1) \<Rightarrow> (Inl e, w1)
      | (Inr _, w1) \<Rightarrow>
          (case func w1 of
             (Inl e, w2) \<Rightarrow>
               (case Marker_exit self w2 of
                  (Inl e', w3) \<Rightarrow> (Inl e', w3)
                | (Inr _, w3) \<Rightarrow> (Inl e, w3))
           | (Inr _, w2) \<Rightarrow>
               (case Marker_exit self w2 of
                  (Inl e', w3) \<Rightarrow> (Inl e', w3)
                | (Inr _, w3) \<Rightarrow> (Inr NoneV, w3))))"

text \<open>
  The specification's reference for the decorator, in its words: the function
  body bracketed by hand, \<open>start(); body; finish()\<close>, giving what the body gives.
\<close>

definition start_body_finish ::
  "nat \<Rightarrow> (World \<Rightarrow> (error + pyvalue) \<times> World) \<Rightarrow> World \<Rightarrow> (error + pyvalue) \<times> World" where
  "start_body_finish self func w =
     (case start self w of
        (Inl e, w1) \<Rightarrow> (Inl e, w1)
      | (Inr _, w1) \<Rightarrow>
          (case func w1 of
             (Inl e, w2) \<Rightarrow> (Inl e, w2)
           | (Inr v, w2) \<Rightarrow>
               (case finish self w2 of
                  (Inl e, w3) \<Rightarrow> (Inl e, w3)
                | (Inr _, w3) \<Rightarrow> (Inr v, w3))))"

subsection \<open>Observations\<close>

text \<open>The action at the batch the host's timer shows, as the marker methods compute it.\<close>

definition current_action :: "World \<Rightarrow> error + ProfilerAction" where
  "current_action w = get_action (profiler w) (batch_in_epoch (state (profiler w)))"

text \<open>Every handler receives the events \<open>es\<close>, in this order.\<close>

definition deliver :: "event list \<Rightarrow> Handler list \<Rightarrow> Handler list" where
  "deliver es hs = map (\<lambda>h. h\<lparr>processed := processed h @ es\<rparr>) hs"

text \<open>The events of a recording start, of a recording finish, of an instant and of a counter.\<close>

definition start_events :: "nat \<Rightarrow> World \<Rightarrow> event list" where
  "start_events self w =
     DurationEvent (name (heap w self)) (categories (heap w self))
         (get_timestamp (state (profiler w))) True (time_time_ns w) (dist_global_rank w) (os_pid w)
     # (if record_instant_on_start (heap w self)
        then [InstantEvent (name (heap w self)) (categories (heap w self))
                (get_timestamp (state (profiler w))) (time_time_ns w) (dist_global_rank w) (os_pid w)]
        else [])"

definition finish_events :: "nat \<Rightarrow> World \<Rightarrow> event list" where
  "finish_events self w =
     DurationEvent (name (heap w self)) (categories (heap w self))
         (get_timestamp (state (profiler w))) False (time_time_ns w) (dist_global_rank w) (os_pid w)
     # (if record_instant_on_finish (heap w self)
        then [InstantEvent (name (heap w self)) (categories (heap w self))
                (get_timestamp (state (profiler w))) (time_time_ns w) (dist_global_rank w) (os_pid w)]
        else [])"

definition instant_event :: "nat \<Rightarrow> World \<Rightarrow> event" where
  "instant_event self w =
     InstantEvent (name (heap w self)) (categories (heap w self))
       (get_timestamp (state (profiler w))) (time_time_ns w) (dist_global_rank w) (os_pid w)"

definition counter_event :: "nat \<Rightarrow> (string \<times> int) list \<Rightarrow> World \<Rightarrow> event" where
  "counter_event self vals w =
     CounterEvent (name (heap w self)) (categories (heap w self))
       (time_time_ns w) (dist_global_rank w) (os_pid w) vals"

text \<open>
  Every registered name refers to an object that exists. This holds after
  \<open>Profiler.__init__\<close> and is kept by every method.
\<close>

definition registry_ok :: "World \<Rightarrow> bool" where
  "registry_ok w = (\<forall>nm a. names_to_markers (profiler w) nm = Some a \<longrightarrow> a < next_addr w)"

subsection \<open>Example worlds\<close>

text \<open>The host moves to batch \<open>b\<close> of the epoch.\<close>

definition at_batch :: "int \<Rightarrow> World \<Rightarrow> World" where
  "at_batch b w = w\<lparr>profiler := (profiler w)\<lparr>state := timer_at b\<rparr>\<rparr>"

definition example_world :: "int \<Rightarrow> int \<Rightarrow> int \<Rightarrow> int \<Rightarrow> int \<Rightarrow> World" where
  "example_world w u a r b = at_batch b (World_init (cycle_profiler w u a r) 1000 0 77)"

text \<open>
  A marker with both instant flags set, in a cycle that waits for one batch: at batch 0
  the action is \<open>SKIP\<close>, at batch 1 it is \<open>ACTIVE\<close>.
\<close>

definition skip_world :: World where
  "skip_world =
     snd (marker ''forward'' [WARMUP, ACTIVE] True True [''step''] (example_world 1 0 4 1 0))"

text \<open>A marker in the default cycle, at batch 1, where the action is \<open>ACTIVE\<close>.\<close>

definition active_world :: World where
  "active_world =
     snd (marker ''forward'' [WARMUP, ACTIVE] False False [''step''] (example_world 0 1 4 1 1))"

text \<open>The profiled function \<open>lambda: 42\<close>.\<close>

definition returns_42 :: "World \<Rightarrow> (error + pyvalue) \<times> World" where
  "returns_42 w = (Inr (IntV 42), w)"

section \<open>The sampling cycle\<close>

lemma cycle_profiler_fields:
  "wait (cycle_profiler w u a r) = w" "warmup (cycle_profiler w u a r) = u"
  "active (cycle_profiler w u a r) = a" "repeat (cycle_profiler w u a r) = r"
  "skip_first (cycle_profiler w u a r) = 0"
  by (simp_all add: cycle_profiler_def Profiler_init_def)

text \<open>
  C1. With an empty cycle (\<open>wait + warmup + active = 0\<close>) and \<open>repeat = 0\<close> the
  exhaustion test is skipped and the modulo is taken by zero: the call at batch 0
  raises \<open>ZeroDivisionError\<close> instead of returning \<open>SKIP\<close>.
\<close>

theorem get_action_empty_cycle_raises:
  "get_action (cycle_profiler 0 0 0 0) 0 = Inl ZeroDivisionError"
  by (simp add: get_action_def cycle_profiler_fields)

text \<open>
  The sibling case: with an empty cycle and \<open>repeat \<noteq> 0\<close> every batch index from 0
  on is past the exhaustion bound \<open>0 * repeat\<close>, and the result is \<open>SKIP\<close>.
\<close>

lemma get_action_empty_cycle_repeat:
  assumes "wait self + warmup self + active self = 0" and "repeat self \<noteq> 0" and "0 \<le> batch_idx"
  shows "get_action self batch_idx = Inr SKIP"
  using assms by (simp add: get_action_def)

text \<open>
  C3. For a cycle of positive length: past \<open>cycle_len * repeat\<close> (when \<open>repeat \<noteq> 0\<close>)
  the action is \<open>SKIP\<close>; otherwise the position \<open>batch_idx mod cycle_len\<close> decides:
  \<open>SKIP\<close> below \<open>wait\<close>, \<open>WARMUP\<close> below \<open>wait + warmup\<close>, \<open>ACTIVE\<close> after that. No
  error is raised. With \<open>wait = 0\<close>, \<open>warmup = 1\<close>, \<open>active = 4\<close>, \<open>repeat = 1\<close>: batch 0
  is \<open>WARMUP\<close>, batches 1 to 4 are \<open>ACTIVE\<close>, batch 5 is \<open>SKIP\<close>.
\<close>

theorem get_action_positive_cycle:
  assumes "wait self + warmup self + active self > 0"
  shows "get_action self batch_idx =
           (if repeat self \<noteq> 0
               \<and> batch_idx \<ge> (wait self + warmup self + active self) * repeat self
            then Inr SKIP
            else if batch_idx mod (wait self + warmup self + active self) < wait self
            then Inr SKIP
            else if wait self \<le> batch_idx mod (wait self + warmup self + active self)
                  \<and> batch_idx mod (wait self + warmup self + active self)
                      < wait self + warmup self
            then Inr WARMUP
            else Inr ACTIVE)
       \<and> (wait self = 0 \<and> warmup self = 1 \<and> active self = 4 \<and> repeat self = 1
            \<longrightarrow> get_action self 0 = Inr WARMUP
              \<and> get_action self 1 = Inr ACTIVE \<and> get_action self 2 = Inr ACTIVE
              \<and> get_action self 3 = Inr ACTIVE \<and> get_action self 4 = Inr ACTIVE
              \<and> get_action self 5 = Inr SKIP)"
  using assms by (auto simp add: get_action_def Let_def)

theorem get_action_positive_cycle_witness:
  "wait (cycle_profiler 0 1 4 1) + warmup (cycle_profiler 0 1 4 1)
      + active (cycle_profiler 0 1 4 1) > 0
   \<and> map (get_action (cycle_profiler 0 1 4 1)) [0, 1, 2, 3, 4, 5, 6]
       = [Inr WARMUP, Inr ACTIVE, Inr ACTIVE, Inr ACTIVE, Inr ACTIVE, Inr SKIP, Inr SKIP]
   \<and> get_action (cycle_profiler 2 1 1 2) 6 = Inr WARMUP"
proof -
  have h: "wait (cycle_profiler 0 1 4 1) + warmup (cycle_profiler 0 1 4 1)
      + active (cycle_profiler 0 1 4 1) > 0"
    by (simp add: cycle_profiler_fields)
  have g: "wait (cycle_profiler 2 1 1 2) + warmup (cycle_profiler 2 1 1 2)
      + active (cycle_profiler 2 1 1 2) > 0"
    by (simp add: cycle_profiler_fields)
  show ?thesis
    using h get_action_positive_cycle [OF h, of 6] get_action_positive_cycle [OF h, of 0]
      get_action_positive_cycle [OF g, of 6]
    by (simp add: cycle_profiler_fields)
qed

text \<open>
  C4. With \<open>repeat = 0\<close> and a cycle of positive length the action is periodic in
  the batch index with period \<open>cycle_len\<close>, and only the position in the cycle
  decides it: \<open>SKIP\<close> is returned exactly when the position is below \<open>wait\<close>, never
  because the repeats are used up. With \<open>wait = 0\<close>, \<open>warmup = 1\<close>, \<open>active = 4\<close>,
  batch 5 gives what batch 0 gives, \<open>WARMUP\<close>.
\<close>

theorem get_action_periodic:
  assumes "repeat self = 0" and "wait self + warmup self + active self > 0"
  shows "get_action self (batch_idx + (wait self + warmup self + active self))
           = get_action self batch_idx
       \<and> (get_action self batch_idx = Inr SKIP
            \<longleftrightarrow> batch_idx mod (wait self + warmup self + active self) < wait self)
       \<and> (wait self = 0 \<and> warmup self = 1 \<and> active self = 4
            \<longrightarrow> get_action self 5 = get_action self 0 \<and> get_action self 5 = Inr WARMUP)"
  using assms by (auto simp add: get_action_def Let_def)

theorem get_action_periodic_witness:
  "repeat (cycle_profiler 0 1 4 0) = 0
   \<and> get_action (cycle_profiler 0 1 4 0) 5 = Inr WARMUP
   \<and> get_action (cycle_profiler 0 1 4 0) (7 + 5) = get_action (cycle_profiler 0 1 4 0) 7
   \<and> get_action (cycle_profiler 0 1 4 0) 7 \<noteq> Inr SKIP"
proof -
  have r: "repeat (cycle_profiler 0 1 4 0) = 0"
    by (simp add: cycle_profiler_fields)
  have h: "wait (cycle_profiler 0 1 4 0) + warmup (cycle_profiler 0 1 4 0)
      + active (cycle_profiler 0 1 4 0) > 0"
    by (simp add: cycle_profiler_fields)
  show ?thesis
    using r get_action_periodic [OF r h, of 7]
    by (simp add: cycle_profiler_fields get_action_def)
qed

text \<open>
  C8. The action is a function of the batch index and of the attributes \<open>wait\<close>,
  \<open>warmup\<close>, \<open>active\<close> and \<open>repeat\<close> alone: two profilers that agree on these four
  give the same result at every batch index, whatever their other attributes
  are, and changing \<open>skip_first\<close> changes nothing. The method assigns no attribute,
  so it returns a value and no new profiler.
\<close>

theorem get_action_depends_on_cycle_only:
  assumes "wait p = wait q" and "warmup p = warmup q"
    and "active p = active q" and "repeat p = repeat q"
  shows "get_action p batch_idx = get_action q batch_idx
       \<and> get_action (p\<lparr>skip_first := k\<rparr>) batch_idx = get_action p batch_idx"
  using assms by (simp add: get_action_def Let_def)

theorem get_action_depends_on_cycle_only_witness:
  "get_action (Profiler_init ''/a'' (timer_at 3) [] 7 0 1 4 1 ''x.json'') 2
     = get_action (cycle_profiler 0 1 4 1) 2
   \<and> get_action ((cycle_profiler 0 1 4 1)\<lparr>skip_first := 100\<rparr>) 2 = Inr ACTIVE"
proof -
  let ?p = "Profiler_init ''/a'' (timer_at 3) [] 7 0 1 4 1 ''x.json''"
  let ?q = "cycle_profiler 0 1 4 1"
  have w: "wait ?p = wait ?q" and u: "warmup ?p = warmup ?q"
    and a: "active ?p = active ?q" and r: "repeat ?p = repeat ?q"
    by (simp_all add: cycle_profiler_fields Profiler_init_def)
  have w': "wait ?q = wait ?q" and u': "warmup ?q = warmup ?q"
    and a': "active ?q = active ?q" and r': "repeat ?q = repeat ?q"
    by simp_all
  have v: "get_action ?q 2 = Inr ACTIVE"
    by (simp add: get_action_def cycle_profiler_fields)
  show ?thesis
    using get_action_depends_on_cycle_only [OF w u a r, of 2 0]
      get_action_depends_on_cycle_only [OF w' u' a' r', of 2 100] v
    by simp
qed

section \<open>Event handlers\<close>

text \<open>
  C9. A profiler constructed with an empty (or omitted) sequence of handlers holds
  exactly one handler, a new \<open>JSONTraceHandler\<close>; the handler list of a profiler
  is never empty; and each of the three record methods of such a profiler hands
  the event to that one handler.
\<close>

theorem default_handler_installed:
  "event_handlers (Profiler_init rd st [] sf w u a r tf)
      = [\<lparr> handler_class = JSONTraceHandler, processed = [] \<rparr>]
   \<and> event_handlers (Profiler_init rd st hs sf w u a r tf) \<noteq> []
   \<and> map processed (event_handlers
        (record_duration_event m is_start t rank p ts (Profiler_init rd st [] sf w u a r tf)))
      = [[DurationEvent (name m) (categories m) ts is_start t rank p]]
   \<and> map processed (event_handlers
        (record_instant_event m t rank p ts (Profiler_init rd st [] sf w u a r tf)))
      = [[InstantEvent (name m) (categories m) ts t rank p]]
   \<and> map processed (event_handlers
        (record_counter_event m t rank p vals (Profiler_init rd st [] sf w u a r tf)))
      = [[CounterEvent (name m) (categories m) t rank p vals]]"
  by (simp add: Profiler_init_def record_duration_event_def record_instant_event_def
      record_counter_event_def process_event_def)

lemma deliver_Nil: "deliver [] hs = hs"
  by (simp add: deliver_def)

lemma deliver_one: "map (process_event e) hs = deliver [e] hs"
  by (simp add: deliver_def process_event_def)

lemma deliver_deliver: "deliver es2 (deliver es1 hs) = deliver (es1 @ es2) hs"
  by (simp add: deliver_def)

section \<open>What the marker methods compute\<close>

lemma start_result:
  "start self w =
     (if started (heap w self) then (Inl RuntimeError, w)
      else case current_action w of
        Inl e \<Rightarrow> (Inl e, w)
      | Inr a \<Rightarrow>
          (Inr (),
           w\<lparr>heap := (heap w)(self := (heap w self)\<lparr>action_at_start := Some a, started := True\<rparr>),
             profiler := (profiler w)\<lparr>event_handlers :=
               deliver (if a \<in> set (actions (heap w self)) then start_events self w else [])
                 (event_handlers (profiler w))\<rparr>\<rparr>))"
  by (simp add: start_def current_action_def Let_def set_marker_def in_actions_def
      call_record_duration_event_def call_record_instant_event_def
      record_duration_event_def record_instant_event_def deliver_one deliver_deliver deliver_Nil
      start_events_def split: sum.splits)

lemma finish_result:
  "finish self w =
     (if \<not> started (heap w self) then (Inl RuntimeError, w)
      else
        (Inr (),
         w\<lparr>heap := (heap w)(self := (heap w self)\<lparr>started := False\<rparr>),
           profiler := (profiler w)\<lparr>event_handlers :=
             deliver (if in_actions (action_at_start (heap w self)) (actions (heap w self))
                      then finish_events self w else [])
               (event_handlers (profiler w))\<rparr>\<rparr>))"
  by (simp add: finish_def Let_def set_marker_def
      call_record_duration_event_def call_record_instant_event_def
      record_duration_event_def record_instant_event_def deliver_one deliver_deliver deliver_Nil
      finish_events_def)

lemma instant_result:
  "instant self w =
     (case current_action w of
        Inl e \<Rightarrow> (Inl e, w)
      | Inr a \<Rightarrow>
          (Inr (),
           if a \<in> set (actions (heap w self))
           then w\<lparr>profiler := (profiler w)
                  \<lparr>event_handlers := deliver [instant_event self w] (event_handlers (profiler w))\<rparr>\<rparr>
           else w))"
  by (simp add: instant_def current_action_def call_record_instant_event_def
      record_instant_event_def deliver_one instant_event_def split: sum.splits)

lemma counter_result:
  "counter self vals w =
     (case current_action w of
        Inl e \<Rightarrow> (Inl e, w)
      | Inr a \<Rightarrow>
          (Inr (),
           if a \<in> set (actions (heap w self))
           then w\<lparr>profiler := (profiler w)
                  \<lparr>event_handlers := deliver [counter_event self vals w] (event_handlers (profiler w))\<rparr>\<rparr>
           else w))"
  by (simp add: counter_def current_action_def call_record_counter_event_def
      record_counter_event_def deliver_one counter_event_def split: sum.splits)

lemma current_action_not_RuntimeError: "current_action w \<noteq> Inl RuntimeError"
  by (simp add: current_action_def get_action_def Let_def)

section \<open>The registry\<close>

lemma Marker_init_registered:
  assumes "registry_ok w" and "names_to_markers (profiler w) nm = Some a"
  shows "Marker_init nm acts rs rf cats w = (Inl RuntimeError, w)"
proof -
  from assms have "a < next_addr w" unfolding registry_ok_def by blast
  then have "a \<noteq> next_addr w" by simp
  with assms(2) show ?thesis by (simp add: Marker_init_def)
qed

lemma marker_existing:
  assumes "names_to_markers (profiler w) nm = Some a"
  shows "marker nm acts rs rf cats w
           = (Inr a, w\<lparr>heap := (heap w)(a := (heap w a)\<lparr>categories := cats\<rparr>)\<rparr>)"
  using assms by (simp add: marker_def lookup_marker_def set_marker_def)

lemma marker_fresh:
  assumes "names_to_markers (profiler w) nm = None"
  shows "\<exists>w1. marker nm acts rs rf cats w = (Inr (next_addr w), w1)
           \<and> names_to_markers (profiler w1) nm = Some (next_addr w)
           \<and> next_addr w1 = Suc (next_addr w)"
  using assms by (simp add: marker_def lookup_marker_def set_marker_def Marker_init_def Let_def)

lemma marker_registers:
  "\<exists>a1 w1. marker nm acts rs rf cats w = (Inr a1, w1)
      \<and> names_to_markers (profiler w1) nm = Some a1"
proof (cases "names_to_markers (profiler w) nm")
  case None
  from marker_fresh [OF None] show ?thesis by blast
next
  case (Some a)
  from marker_existing [OF Some] Some show ?thesis by simp
qed

lemma registry_ok_World_init:
  "names_to_markers p = Map.empty \<Longrightarrow> registry_ok (World_init p t r pd)"
  by (simp add: registry_ok_def World_init_def)

lemma registry_ok_at_batch: "registry_ok (at_batch b w) = registry_ok w"
  by (simp add: registry_ok_def at_batch_def)

lemma registry_ok_marker:
  assumes "registry_ok w"
  shows "registry_ok (snd (marker nm acts rs rf cats w))"
proof (cases "names_to_markers (profiler w) nm")
  case None
  with assms show ?thesis
    by (auto simp add: registry_ok_def marker_def Marker_init_def lookup_marker_def
        set_marker_def Let_def less_Suc_eq)
next
  case (Some a)
  with assms show ?thesis
    by (simp add: registry_ok_def marker_existing)
qed

lemma registry_ok_start: "registry_ok (snd (start self w)) = registry_ok w"
  by (simp add: registry_ok_def start_result split: sum.splits)

lemma registry_ok_finish: "registry_ok (snd (finish self w)) = registry_ok w"
  by (simp add: registry_ok_def finish_result)

lemma registry_ok_example: "registry_ok (example_world w u a r b)"
  unfolding example_world_def registry_ok_at_batch
  by (rule registry_ok_World_init) (simp add: cycle_profiler_def Profiler_init_def)

section \<open>The example worlds\<close>

lemmas world_defs =
  example_world_def at_batch_def World_init_def cycle_profiler_def Profiler_init_def timer_at_def
  marker_def Marker_init_def lookup_marker_def set_marker_def Let_def

lemma active_world_facts:
  "names_to_markers (profiler active_world) ''forward'' = Some 0"
  "next_addr active_world = 1"
  "heap active_world 0 =
     \<lparr> name = ''forward'', actions = [WARMUP, ACTIVE], categories = [''step''],
       record_instant_on_start = False, record_instant_on_finish = False,
       started = False, action_at_start = None \<rparr>"
  "current_action active_world = Inr ACTIVE"
  "event_handlers (profiler active_world) = [\<lparr> handler_class = JSONTraceHandler, processed = [] \<rparr>]"
  by (simp_all add: active_world_def world_defs current_action_def get_action_def)

lemma skip_world_facts:
  "names_to_markers (profiler skip_world) ''forward'' = Some 0"
  "next_addr skip_world = 1"
  "heap skip_world 0 =
     \<lparr> name = ''forward'', actions = [WARMUP, ACTIVE], categories = [''step''],
       record_instant_on_start = True, record_instant_on_finish = True,
       started = False, action_at_start = None \<rparr>"
  "current_action skip_world = Inr SKIP"
  "current_action (at_batch 1 (snd (start 0 skip_world))) = Inr ACTIVE"
  "event_handlers (profiler skip_world) = [\<lparr> handler_class = JSONTraceHandler, processed = [] \<rparr>]"
  by (simp_all add: skip_world_def world_defs current_action_def get_action_def start_result)

lemma registry_ok_active_world: "registry_ok active_world"
  unfolding active_world_def by (rule registry_ok_marker) (rule registry_ok_example)

lemma at_batch_heap: "heap (at_batch b w) = heap w"
  by (simp add: at_batch_def)

lemma at_batch_handlers: "event_handlers (profiler (at_batch b w)) = event_handlers (profiler w)"
  by (simp add: at_batch_def)

section \<open>The marker protocol\<close>

text \<open>
  C5. When \<open>start\<close> succeeds, the action at the batch of the call is stored in the
  marker and the marker is started, whether or not anything is emitted. Let the
  world then change in any way that leaves the marker's \<open>started\<close>,
  \<open>action_at_start\<close> and \<open>actions\<close> as they are (the host may move to any batch,
  the cycle may be any other): \<open>finish\<close> succeeds and leaves the marker not
  started, and what it emits is decided by the stored action, not by the action
  at the batch of the call. When the stored action is not among the marker's
  actions, neither \<open>start\<close> nor \<open>finish\<close> hands any event to any handler.
\<close>

theorem frozen_action_gates_pair:
  assumes "start self w = (Inr u, w1)"
    and "started (heap w2 self) = started (heap w1 self)"
    and "action_at_start (heap w2 self) = action_at_start (heap w1 self)"
    and "actions (heap w2 self) = actions (heap w1 self)"
  shows "\<exists>a. current_action w = Inr a
      \<and> action_at_start (heap w1 self) = Some a
      \<and> started (heap w1 self)
      \<and> fst (finish self w2) = Inr ()
      \<and> \<not> started (heap (snd (finish self w2)) self)
      \<and> event_handlers (profiler w1)
          = deliver (if a \<in> set (actions (heap w self)) then start_events self w else [])
              (event_handlers (profiler w))
      \<and> event_handlers (profiler (snd (finish self w2)))
          = deliver (if a \<in> set (actions (heap w self)) then finish_events self w2 else [])
              (event_handlers (profiler w2))
      \<and> (a \<notin> set (actions (heap w self))
           \<longrightarrow> event_handlers (profiler w1) = event_handlers (profiler w)
             \<and> event_handlers (profiler (snd (finish self w2))) = event_handlers (profiler w2))"
proof -
  from assms(1) obtain a where a: "current_action w = Inr a"
    and ns: "\<not> started (heap w self)"
    and w1: "w1 = w\<lparr>heap := (heap w)(self := (heap w self)\<lparr>action_at_start := Some a, started := True\<rparr>),
             profiler := (profiler w)\<lparr>event_handlers :=
               deliver (if a \<in> set (actions (heap w self)) then start_events self w else [])
                 (event_handlers (profiler w))\<rparr>\<rparr>"
    by (auto simp add: start_result split: if_splits sum.splits)
  from w1 have f1: "action_at_start (heap w1 self) = Some a" and f2: "started (heap w1 self)"
    and f3: "actions (heap w1 self) = actions (heap w self)"
    and f4: "event_handlers (profiler w1)
          = deliver (if a \<in> set (actions (heap w self)) then start_events self w else [])
              (event_handlers (profiler w))"
    by simp_all
  from assms(2-4) f1 f2 f3 have g1: "started (heap w2 self)"
    and g2: "in_actions (action_at_start (heap w2 self)) (actions (heap w2 self))
               = (a \<in> set (actions (heap w self)))"
    by (simp_all add: in_actions_def)
  have h1: "fst (finish self w2) = Inr ()"
    and h2: "\<not> started (heap (snd (finish self w2)) self)"
    and h3: "event_handlers (profiler (snd (finish self w2)))
          = deliver (if a \<in> set (actions (heap w self)) then finish_events self w2 else [])
              (event_handlers (profiler w2))"
    using g1 g2 by (simp_all add: finish_result)
  from a f1 f2 f4 h1 h2 h3 show ?thesis
    by (auto simp add: deliver_Nil)
qed

theorem frozen_action_gates_pair_witness:
  "start 0 skip_world = (Inr (), snd (start 0 skip_world))
   \<and> current_action skip_world = Inr SKIP
   \<and> current_action (at_batch 1 (snd (start 0 skip_world))) = Inr ACTIVE
   \<and> ACTIVE \<in> set (actions (heap (at_batch 1 (snd (start 0 skip_world))) 0))
   \<and> started (heap (snd (start 0 skip_world)) 0)
   \<and> fst (finish 0 (at_batch 1 (snd (start 0 skip_world)))) = Inr ()
   \<and> \<not> started (heap (snd (finish 0 (at_batch 1 (snd (start 0 skip_world))))) 0)
   \<and> map processed (event_handlers (profiler (snd (start 0 skip_world)))) = [[]]
   \<and> map processed
        (event_handlers (profiler (snd (finish 0 (at_batch 1 (snd (start 0 skip_world)))))))
       = [[]]"
proof -
  let ?w1 = "snd (start 0 skip_world)"
  let ?w2 = "at_batch 1 ?w1"
  have s: "start 0 skip_world = (Inr (), ?w1)"
    by (simp add: start_result skip_world_facts)
  have acts: "actions (heap ?w2 0) = [WARMUP, ACTIVE]"
    by (simp add: at_batch_heap start_result skip_world_facts)
  have hs: "event_handlers (profiler ?w2) = event_handlers (profiler ?w1)"
    by (rule at_batch_handlers)
  from frozen_action_gates_pair [OF s, of ?w2]
  obtain a where a: "current_action skip_world = Inr a"
    and st: "started (heap ?w1 0)"
    and fi: "fst (finish 0 ?w2) = Inr ()"
    and nst: "\<not> started (heap (snd (finish 0 ?w2)) 0)"
    and ev: "a \<notin> set (actions (heap skip_world 0))
           \<longrightarrow> event_handlers (profiler ?w1) = event_handlers (profiler skip_world)
             \<and> event_handlers (profiler (snd (finish 0 ?w2))) = event_handlers (profiler ?w2)"
    by (auto simp add: at_batch_heap)
  from a have "a = SKIP" by (simp add: skip_world_facts)
  with ev hs have "event_handlers (profiler ?w1) = event_handlers (profiler skip_world)"
    and "event_handlers (profiler (snd (finish 0 ?w2))) = event_handlers (profiler skip_world)"
    by (simp_all add: skip_world_facts)
  with s st fi nst acts show ?thesis
    by (simp add: skip_world_facts)
qed

text \<open>
  C7. \<open>start\<close> on a started marker, \<open>finish\<close> on a marker that is not started, and
  the construction of a \<open>Marker\<close> for a name that the profiler has registered all
  raise \<open>RuntimeError\<close> and leave the world as it was: no handler receives an
  event, and no marker changes.
\<close>

theorem protocol_violations_raise:
  "(started (heap w self) \<longrightarrow> start self w = (Inl RuntimeError, w))
   \<and> (\<not> started (heap w self) \<longrightarrow> finish self w = (Inl RuntimeError, w))
   \<and> (registry_ok w \<and> names_to_markers (profiler w) nm \<noteq> None
        \<longrightarrow> Marker_init nm acts rs rf cats w = (Inl RuntimeError, w))"
  by (auto simp add: start_def finish_def Marker_init_registered)

theorem protocol_violations_raise_witness:
  "started (heap (snd (start 0 active_world)) 0)
   \<and> start 0 (snd (start 0 active_world)) = (Inl RuntimeError, snd (start 0 active_world))
   \<and> \<not> started (heap active_world 0)
   \<and> finish 0 active_world = (Inl RuntimeError, active_world)
   \<and> registry_ok active_world
   \<and> names_to_markers (profiler active_world) ''forward'' \<noteq> None
   \<and> Marker_init ''forward'' [ACTIVE] True True [] active_world = (Inl RuntimeError, active_world)"
proof -
  let ?w1 = "snd (start 0 active_world)"
  have a: "started (heap ?w1 0)"
    by (simp add: start_result active_world_facts)
  have b: "\<not> started (heap active_world 0)"
    by (simp add: active_world_facts)
  have c: "registry_ok active_world \<and> names_to_markers (profiler active_world) ''forward'' \<noteq> None"
    by (simp add: registry_ok_active_world active_world_facts)
  from a b c
    protocol_violations_raise [of ?w1 0 "''forward''" "[ACTIVE]" True True "[]"]
    protocol_violations_raise [of active_world 0 "''forward''" "[ACTIVE]" True True "[]"]
  show ?thesis by blast
qed

text \<open>
  C6. When a name is registered, \<open>Profiler.marker\<close> returns the registered object
  and changes nothing but the \<open>categories\<close> of that object, which become those of
  the call: the other attributes, the registry and the set of objects stay as they
  are. A first call for any name succeeds and registers the object it returns, so
  a second call for that name returns the same object.
\<close>

theorem marker_returns_registered:
  "(names_to_markers (profiler w) nm = Some a
      \<longrightarrow> marker nm acts rs rf cats w
            = (Inr a, w\<lparr>heap := (heap w)(a := (heap w a)\<lparr>categories := cats\<rparr>)\<rparr>))
   \<and> (\<exists>a1 w1. marker nm acts rs rf cats w = (Inr a1, w1)
        \<and> names_to_markers (profiler w1) nm = Some a1
        \<and> marker nm acts' rs' rf' cats' w1
            = (Inr a1, w1\<lparr>heap := (heap w1)(a1 := (heap w1 a1)\<lparr>categories := cats'\<rparr>)\<rparr>))"
proof -
  obtain a1 w1 where m: "marker nm acts rs rf cats w = (Inr a1, w1)"
    and r: "names_to_markers (profiler w1) nm = Some a1"
    using marker_registers by blast
  from m r marker_existing [OF r] have
    "\<exists>a1 w1. marker nm acts rs rf cats w = (Inr a1, w1)
        \<and> names_to_markers (profiler w1) nm = Some a1
        \<and> marker nm acts' rs' rf' cats' w1
            = (Inr a1, w1\<lparr>heap := (heap w1)(a1 := (heap w1 a1)\<lparr>categories := cats'\<rparr>)\<rparr>)"
    by blast
  then show ?thesis using marker_existing by blast
qed

theorem marker_returns_registered_witness:
  "names_to_markers (profiler active_world) ''forward'' = Some 0
   \<and> fst (marker ''forward'' [SKIP] True True [''other''] active_world) = Inr 0
   \<and> categories (heap (snd (marker ''forward'' [SKIP] True True [''other''] active_world)) 0)
       = [''other'']
   \<and> actions (heap (snd (marker ''forward'' [SKIP] True True [''other''] active_world)) 0)
       = [WARMUP, ACTIVE]
   \<and> \<not> record_instant_on_start
         (heap (snd (marker ''forward'' [SKIP] True True [''other''] active_world)) 0)
   \<and> \<not> record_instant_on_finish
         (heap (snd (marker ''forward'' [SKIP] True True [''other''] active_world)) 0)
   \<and> next_addr (snd (marker ''forward'' [SKIP] True True [''other''] active_world)) = 1"
proof -
  have r: "names_to_markers (profiler active_world) ''forward'' = Some 0"
    by (simp add: active_world_facts)
  from marker_returns_registered [of active_world "''forward''" 0 "[SKIP]" True True "[''other'']"] r
  have "marker ''forward'' [SKIP] True True [''other''] active_world
          = (Inr 0, active_world\<lparr>heap := (heap active_world)
               (0 := (heap active_world 0)\<lparr>categories := [''other'']\<rparr>)\<rparr>)"
    by blast
  with r show ?thesis by (simp add: active_world_facts)
qed

text \<open>
  C10. \<open>instant\<close> and \<open>counter\<close> change no marker object; their result and the world
  they leave do not depend on the marker's \<open>started\<close> and \<open>action_at_start\<close>; they
  never raise \<open>RuntimeError\<close>; and they hand an event to the handlers exactly when
  the action at the batch of the call is among the marker's actions.
\<close>

theorem instant_counter_ignore_started:
  fixes b :: bool and x :: "ProfilerAction option"
  shows "heap (snd (instant self w)) = heap w
   \<and> heap (snd (counter self vals w)) = heap w
   \<and> instant self (set_marker self (\<lambda>m. m\<lparr>started := b, action_at_start := x\<rparr>) w)
       = (fst (instant self w),
          set_marker self (\<lambda>m. m\<lparr>started := b, action_at_start := x\<rparr>) (snd (instant self w)))
   \<and> counter self vals (set_marker self (\<lambda>m. m\<lparr>started := b, action_at_start := x\<rparr>) w)
       = (fst (counter self vals w),
          set_marker self (\<lambda>m. m\<lparr>started := b, action_at_start := x\<rparr>) (snd (counter self vals w)))
   \<and> fst (instant self w) \<noteq> Inl RuntimeError
   \<and> fst (counter self vals w) \<noteq> Inl RuntimeError
   \<and> event_handlers (profiler (snd (instant self w)))
       = (case current_action w of
            Inl e \<Rightarrow> event_handlers (profiler w)
          | Inr a \<Rightarrow>
              if a \<in> set (actions (heap w self))
              then deliver [instant_event self w] (event_handlers (profiler w))
              else event_handlers (profiler w))
   \<and> event_handlers (profiler (snd (counter self vals w)))
       = (case current_action w of
            Inl e \<Rightarrow> event_handlers (profiler w)
          | Inr a \<Rightarrow>
              if a \<in> set (actions (heap w self))
              then deliver [counter_event self vals w] (event_handlers (profiler w))
              else event_handlers (profiler w))"
proof -
  let ?f = "\<lambda>m::Marker. m\<lparr>started := b, action_at_start := x\<rparr>"
  have ca: "current_action (set_marker self ?f w) = current_action w"
    by (simp add: current_action_def set_marker_def)
  have ie: "instant_event self (set_marker self ?f w) = instant_event self w"
    by (simp add: instant_event_def set_marker_def)
  have ce: "counter_event self vals (set_marker self ?f w) = counter_event self vals w"
    by (simp add: counter_event_def set_marker_def)
  have ac: "actions (heap (set_marker self ?f w) self) = actions (heap w self)"
    by (simp add: set_marker_def)
  have 1: "heap (snd (instant self w)) = heap w"
    by (simp add: instant_result split: sum.splits)
  have 2: "heap (snd (counter self vals w)) = heap w"
    by (simp add: counter_result split: sum.splits)
  have 3: "instant self (set_marker self ?f w)
       = (fst (instant self w), set_marker self ?f (snd (instant self w)))"
    unfolding instant_result ca ie ac
    by (simp add: set_marker_def split: sum.splits)
  have 4: "counter self vals (set_marker self ?f w)
       = (fst (counter self vals w), set_marker self ?f (snd (counter self vals w)))"
    unfolding counter_result ca ce ac
    by (simp add: set_marker_def split: sum.splits)
  have 5: "fst (instant self w) \<noteq> Inl RuntimeError"
    using current_action_not_RuntimeError [of w]
    by (auto simp add: instant_result split: sum.splits)
  have 6: "fst (counter self vals w) \<noteq> Inl RuntimeError"
    using current_action_not_RuntimeError [of w]
    by (auto simp add: counter_result split: sum.splits)
  have 7: "event_handlers (profiler (snd (instant self w)))
       = (case current_action w of
            Inl e \<Rightarrow> event_handlers (profiler w)
          | Inr a \<Rightarrow>
              if a \<in> set (actions (heap w self))
              then deliver [instant_event self w] (event_handlers (profiler w))
              else event_handlers (profiler w))"
    by (simp add: instant_result split: sum.splits)
  have 8: "event_handlers (profiler (snd (counter self vals w)))
       = (case current_action w of
            Inl e \<Rightarrow> event_handlers (profiler w)
          | Inr a \<Rightarrow>
              if a \<in> set (actions (heap w self))
              then deliver [counter_event self vals w] (event_handlers (profiler w))
              else event_handlers (profiler w))"
    by (simp add: counter_result split: sum.splits)
  from 1 2 3 4 5 6 7 8 show ?thesis by blast
qed

section \<open>The decorator\<close>

text \<open>
  When the body does not raise, the decorated call leaves the world that
  \<open>start(); body; finish()\<close> leaves, and raises when that raises; but it returns
  \<open>None\<close> where the bracketed body returns the body's value.
\<close>

lemma wrapped_state_effect:
  assumes "\<not> isl (fst (func (snd (start self w))))"
  shows "snd (wrapped self func w) = snd (start_body_finish self func w)"
    and "fst (wrapped self func w)
           = (case fst (start_body_finish self func w) of Inl e \<Rightarrow> Inl e | Inr v \<Rightarrow> Inr NoneV)"
  using assms
  by (auto simp add: wrapped_def start_body_finish_def Marker_enter_def Marker_exit_def
      split: prod.splits sum.splits)

text \<open>Three decorated calls at an active batch: three pairs of duration events.\<close>

lemma wrapped_three_calls:
  "map processed (event_handlers (profiler
      (snd (wrapped 0 returns_42 (snd (wrapped 0 returns_42
        (snd (wrapped 0 returns_42 active_world))))))))
   = [[DurationEvent ''forward'' [''step''] (Timestamp 0 1 0) True 1000 0 77,
       DurationEvent ''forward'' [''step''] (Timestamp 0 1 0) False 1000 0 77,
       DurationEvent ''forward'' [''step''] (Timestamp 0 1 0) True 1000 0 77,
       DurationEvent ''forward'' [''step''] (Timestamp 0 1 0) False 1000 0 77,
       DurationEvent ''forward'' [''step''] (Timestamp 0 1 0) True 1000 0 77,
       DurationEvent ''forward'' [''step''] (Timestamp 0 1 0) False 1000 0 77]]"
  by (simp add: wrapped_def Marker_enter_def Marker_exit_def returns_42_def
      start_result finish_result current_action_def get_action_def in_actions_def
      start_events_def finish_events_def deliver_def
      active_world_def world_defs)

text \<open>
  C2. A marker wraps the function \<open>lambda: 42\<close> and the wrapped function is called
  at an active batch. The call leaves the world that \<open>start(); body; finish()\<close>
  leaves, but it returns \<open>None\<close>, where the bracketed body returns 42.
\<close>

theorem wrapped_drops_return_value:
  "fst (wrapped 0 returns_42 active_world) = Inr NoneV
   \<and> fst (start_body_finish 0 returns_42 active_world) = Inr (IntV 42)
   \<and> snd (wrapped 0 returns_42 active_world) = snd (start_body_finish 0 returns_42 active_world)"
  by (simp add: wrapped_def start_body_finish_def Marker_enter_def Marker_exit_def
      returns_42_def start_result finish_result active_world_facts)

end
